theory Spec2Isabelle
  imports Complex_Main
begin

section \<open>Privacy Screen: settings, mask synthesis and overlay lifecycle\<close>

text \<open>
  A shallow embedding of the full-featured variant of \<^verbatim>\<open>main.ts\<close> (the first of the
  three variants in the source file): the settings record and its defaults, the plugin
  object with its overlay element, and every callback the plugin registers.

  A JavaScript \<^verbatim>\<open>number\<close> is modelled as a \<^typ>\<open>real\<close>: arithmetic is exact, and
  \<^verbatim>\<open>NaN\<close>, the infinities and rounding are outside the model.
  An \<^verbatim>\<open>async\<close> method is modelled as running to completion in one step.
\<close>

subsection \<open>Settings\<close>

datatype SpotlightShape = Circle | Square

datatype TrackingMode = Cursor | Mouse

record PrivacyScreenSettings =
  spotlightWidth :: real
  spotlightHeight :: real
  horizontalOffset :: real
  blurIntensity :: real
  featherEdge :: real
  spotlightShape :: SpotlightShape
  squareRoundness :: real
  previewCursorBlink :: bool
  wasActive :: bool
  trackingMode :: TrackingMode

definition DEFAULT_SETTINGS :: PrivacyScreenSettings where
  "DEFAULT_SETTINGS =
     \<lparr> spotlightWidth = 200,
       spotlightHeight = 100,
       horizontalOffset = 0,
       blurIntensity = 8,
       featherEdge = 50,
       spotlightShape = Circle,
       squareRoundness = 20,
       previewCursorBlink = True,
       wasActive = False,
       trackingMode = Cursor \<rparr>"

subsection \<open>Settings as a runtime object\<close>

text \<open>
  \<^verbatim>\<open>loadSettings\<close> works on plain objects: the record stored by the host
  (\<^verbatim>\<open>loadData()\<close>, the parsed \<^verbatim>\<open>data.json\<close>, or \<^verbatim>\<open>null\<close> when nothing was
  saved) is merged over the defaults with \<^verbatim>\<open>Object.assign\<close>. An object is a map from
  the names of its own properties to their values. \<^verbatim>\<open>Object.assign(target, ...sources)\<close>
  takes the sources in turn, skips \<^verbatim>\<open>null\<close>, and assigns every own property of a source
  to the target, later sources overwriting.

  The assignment is an ordinary property write (\<^verbatim>\<open>target[key] = value\<close>), not the
  definition of an own property. For every key but one the two agree on a plain object.
  The exception is \<^verbatim>\<open>__proto__\<close>: a target that has no own property of that name
  inherits an accessor for it, the write runs the accessor's setter, and no own property
  is created. (The setter changes the prototype when the value is an object or
  \<^verbatim>\<open>null\<close>; the own properties, which are all the model keeps, are the same either
  way.) A target that already has an own \<^verbatim>\<open>__proto__\<close> property has it overwritten
  like any other.
\<close>

datatype jsval = JNum real | JStr string | JBool bool | JNull

type_synonym jsobj = "string \<rightharpoonup> jsval"

definition assignFrom :: "jsobj \<Rightarrow> jsobj \<Rightarrow> jsobj" where
  "assignFrom target source =
     (\<lambda>key. case source key of
              None \<Rightarrow> target key
            | Some v \<Rightarrow> if key = ''__proto__'' \<and> target key = None then None else Some v)"

fun Object_assign :: "jsobj \<Rightarrow> jsobj option list \<Rightarrow> jsobj" where
  "Object_assign target [] = target"
| "Object_assign target (None # sources) = Object_assign target sources"
| "Object_assign target (Some source # sources) =
     Object_assign (assignFrom target source) sources"

fun shapeValue :: "SpotlightShape \<Rightarrow> jsval" where
  "shapeValue Circle = JStr ''circle''"
| "shapeValue Square = JStr ''square''"

fun modeValue :: "TrackingMode \<Rightarrow> jsval" where
  "modeValue Cursor = JStr ''cursor''"
| "modeValue Mouse = JStr ''mouse''"

text \<open>The object a settings record stands for: its ten properties, by name.\<close>

definition settingsObject :: "PrivacyScreenSettings \<Rightarrow> jsobj" where
  "settingsObject s =
     [ ''spotlightWidth'' \<mapsto> JNum (spotlightWidth s),
       ''spotlightHeight'' \<mapsto> JNum (spotlightHeight s),
       ''horizontalOffset'' \<mapsto> JNum (horizontalOffset s),
       ''blurIntensity'' \<mapsto> JNum (blurIntensity s),
       ''featherEdge'' \<mapsto> JNum (featherEdge s),
       ''spotlightShape'' \<mapsto> shapeValue (spotlightShape s),
       ''squareRoundness'' \<mapsto> JNum (squareRoundness s),
       ''previewCursorBlink'' \<mapsto> JBool (previewCursorBlink s),
       ''wasActive'' \<mapsto> JBool (wasActive s),
       ''trackingMode'' \<mapsto> modeValue (trackingMode s) ]"

text \<open>
  \<^verbatim>\<open>this.settings = Object.assign({}, DEFAULT_SETTINGS, await this.loadData())\<close>:
  the object assigned to \<^verbatim>\<open>this.settings\<close>.
\<close>

definition loadSettings :: "jsobj option \<Rightarrow> jsobj" where
  "loadSettings data = Object_assign Map.empty [Some (settingsObject DEFAULT_SETTINGS), data]"

text \<open>
  The field declaration \<^verbatim>\<open>settings: PrivacyScreenSettings\<close> reads that object at the
  declared type. The reading is defined when each of the ten properties holds a value of
  its declared type. Properties beyond the ten stay in the object and go to
  \<^verbatim>\<open>saveData\<close> with it; the record keeps the ten declared ones, which are all that the
  methods below compute with.
\<close>

fun asNumber :: "jsval option \<Rightarrow> real option" where
  "asNumber (Some (JNum r)) = Some r"
| "asNumber _ = None"

fun asBoolean :: "jsval option \<Rightarrow> bool option" where
  "asBoolean (Some (JBool b)) = Some b"
| "asBoolean _ = None"

fun asShape :: "jsval option \<Rightarrow> SpotlightShape option" where
  "asShape (Some (JStr t)) =
     (if t = ''circle'' then Some Circle else if t = ''square'' then Some Square else None)"
| "asShape _ = None"

fun asMode :: "jsval option \<Rightarrow> TrackingMode option" where
  "asMode (Some (JStr t)) =
     (if t = ''cursor'' then Some Cursor else if t = ''mouse'' then Some Mouse else None)"
| "asMode _ = None"

definition readSettings :: "jsobj \<Rightarrow> PrivacyScreenSettings option" where
  "readSettings obj =
     Option.bind (asNumber (obj ''spotlightWidth'')) (\<lambda>w.
     Option.bind (asNumber (obj ''spotlightHeight'')) (\<lambda>h.
     Option.bind (asNumber (obj ''horizontalOffset'')) (\<lambda>off.
     Option.bind (asNumber (obj ''blurIntensity'')) (\<lambda>blur.
     Option.bind (asNumber (obj ''featherEdge'')) (\<lambda>feather.
     Option.bind (asShape (obj ''spotlightShape'')) (\<lambda>shape.
     Option.bind (asNumber (obj ''squareRoundness'')) (\<lambda>roundness.
     Option.bind (asBoolean (obj ''previewCursorBlink'')) (\<lambda>blink.
     Option.bind (asBoolean (obj ''wasActive'')) (\<lambda>active.
     Option.bind (asMode (obj ''trackingMode'')) (\<lambda>mode.
       Some \<lparr> spotlightWidth = w,
              spotlightHeight = h,
              horizontalOffset = off,
              blurIntensity = blur,
              featherEdge = feather,
              spotlightShape = shape,
              squareRoundness = roundness,
              previewCursorBlink = blink,
              wasActive = active,
              trackingMode = mode \<rparr>))))))))))"

subsection \<open>The host: workspace, editor and document\<close>

text \<open>
  What \<^verbatim>\<open>trackCursor\<close> asks of the host: the active markdown view (or none), its
  CodeMirror editor view (or none), and the coordinates of the main cursor's head
  (\<^verbatim>\<open>coordsAtPos\<close>, or \<^verbatim>\<open>null\<close>).
\<close>

record Coords =
  c_left :: real
  c_right :: real
  c_top :: real
  c_bottom :: real

record EditorView =
  coordsAtPos :: "Coords option"

record MarkdownView =
  cm :: "EditorView option"

record App =
  getActiveViewOfType :: "MarkdownView option"

text \<open>
  The mask image written to the overlay is a string with numbers spliced in. The model
  keeps the template's shape and the numbers: two radial gradients (the inner ellipse
  first) for a circle, and for a square the two \<^verbatim>\<open>rect\<close> elements of the SVG mask (the
  outer, fading one first), each with its \<^verbatim>\<open>x\<close>, \<^verbatim>\<open>y\<close>, \<^verbatim>\<open>width\<close>, \<^verbatim>\<open>height\<close>
  and \<^verbatim>\<open>rx\<close>.
\<close>

record Ellipse =
  ell_rx :: real
  ell_ry :: real
  ell_x :: real
  ell_y :: real

record SvgRect =
  rect_x :: real
  rect_y :: real
  rect_width :: real
  rect_height :: real
  rect_rx :: real

datatype Mask = RadialGradients Ellipse Ellipse | SvgMask SvgRect SvgRect

text \<open>
  A \<^verbatim>\<open>div\<close> created by the plugin: whether it is a child of \<^verbatim>\<open>document.body\<close>, its
  \<^verbatim>\<open>--blur-intensity\<close> property (in px) and its \<^verbatim>\<open>mask-image\<close>. The elements ever
  created are kept in a list; a reference to an element is its index.
\<close>

record Element =
  attached :: bool
  blurProperty :: "real option"
  maskImage :: "Mask option"

subsection \<open>The plugin object\<close>

record Plugin =
  app :: App
  settings :: PrivacyScreenSettings
  overlayEl :: "nat option"
  isActive :: bool
  wasActiveBeforePause :: bool
  currentX :: real
  currentY :: real
  elements :: "Element list"
  savedData :: "PrivacyScreenSettings option"

text \<open>Writing to the style of the element behind a reference.\<close>

definition setStyle :: "nat \<Rightarrow> (Element \<Rightarrow> Element) \<Rightarrow> Plugin \<Rightarrow> Plugin" where
  "setStyle e f st =
     (if e < length (elements st)
      then st\<lparr>elements := (elements st)[e := f (elements st ! e)]\<rparr>
      else st)"

definition createSquareMask :: "real \<Rightarrow> real \<Rightarrow> real \<Rightarrow> real \<Rightarrow> real \<Rightarrow> real \<Rightarrow> Mask" where
  "createSquareMask cx cy width height roundness feather =
     (let left = cx - width / 2;
          top' = cy - height / 2;
          outerLeft = left - feather;
          outerTop = top' - feather;
          outerWidth = width + feather * 2;
          outerHeight = height + feather * 2;
          outerRoundness = roundness + feather
      in SvgMask
           \<lparr> rect_x = outerLeft, rect_y = outerTop, rect_width = outerWidth,
             rect_height = outerHeight, rect_rx = outerRoundness \<rparr>
           \<lparr> rect_x = left, rect_y = top', rect_width = width,
             rect_height = height, rect_rx = roundness \<rparr>)"

definition updateMask :: "Plugin \<Rightarrow> Plugin" where
  "updateMask st =
     (case overlayEl st of
        None \<Rightarrow> st
      | Some e \<Rightarrow>
          (let s = settings st;
               x = currentX st + horizontalOffset s;
               y = currentY st;
               rx = spotlightWidth s / 2;
               ry = spotlightHeight s / 2;
               mask =
                 (case spotlightShape s of
                    Square \<Rightarrow>
                      (let minDimension = min rx ry;
                           roundness = (squareRoundness s / 100) * minDimension
                       in createSquareMask x y (spotlightWidth s) (spotlightHeight s)
                            roundness (featherEdge s))
                  | Circle \<Rightarrow>
                      (let outerRx = rx + featherEdge s;
                           outerRy = ry + featherEdge s
                       in RadialGradients
                            \<lparr> ell_rx = rx, ell_ry = ry, ell_x = x, ell_y = y \<rparr>
                            \<lparr> ell_rx = outerRx, ell_ry = outerRy, ell_x = x, ell_y = y \<rparr>))
           in setStyle e (\<lambda>el. el\<lparr>maskImage := Some mask\<rparr>) st))"

definition applySettings :: "Plugin \<Rightarrow> Plugin" where
  "applySettings st =
     (case overlayEl st of
        None \<Rightarrow> st
      | Some e \<Rightarrow>
          updateMask
            (setStyle e (\<lambda>el. el\<lparr>blurProperty := Some (blurIntensity (settings st))\<rparr>) st))"

definition updateSpotlightPosition :: "real \<Rightarrow> real \<Rightarrow> Plugin \<Rightarrow> Plugin" where
  "updateSpotlightPosition x y st = updateMask (st\<lparr>currentX := x, currentY := y\<rparr>)"

definition trackCursor :: "Plugin \<Rightarrow> Plugin" where
  "trackCursor st =
     (if \<not> isActive st then st
      else case getActiveViewOfType (app st) of
        None \<Rightarrow> st
      | Some view \<Rightarrow>
          (case cm view of
             None \<Rightarrow> st
           | Some editorView \<Rightarrow>
               (case coordsAtPos editorView of
                  None \<Rightarrow> st
                | Some coords \<Rightarrow>
                    (let centerY = (c_top coords + c_bottom coords) / 2
                     in updateSpotlightPosition (c_left coords) centerY st))))"

text \<open>
  \<^verbatim>\<open>createOverlay\<close>: a fresh \<^verbatim>\<open>div\<close> is created, appended to the body and stored in
  \<^verbatim>\<open>overlayEl\<close>, whatever \<^verbatim>\<open>overlayEl\<close> held before.
\<close>

definition createOverlay :: "Plugin \<Rightarrow> Plugin" where
  "createOverlay st =
     (let e = length (elements st);
          st1 = st\<lparr> elements :=
                      elements st @ [\<lparr>attached = True, blurProperty = None, maskImage = None\<rparr>],
                    overlayEl := Some e \<rparr>
      in trackCursor (applySettings st1))"

definition removeOverlay :: "Plugin \<Rightarrow> Plugin" where
  "removeOverlay st =
     (case overlayEl st of
        None \<Rightarrow> st
      | Some e \<Rightarrow> (setStyle e (\<lambda>el. el\<lparr>attached := False\<rparr>) st)\<lparr>overlayEl := None\<rparr>)"

definition saveSettings :: "Plugin \<Rightarrow> Plugin" where
  "saveSettings st = applySettings (st\<lparr>savedData := Some (settings st)\<rparr>)"

definition toggle :: "Plugin \<Rightarrow> Plugin" where
  "toggle st =
     (let st1 = (if isActive st then removeOverlay st else createOverlay st);
          st2 = st1\<lparr>isActive := \<not> isActive st1\<rparr>;
          st3 = st2\<lparr>settings := (settings st2)\<lparr>wasActive := isActive st2\<rparr>\<rparr>
      in saveSettings st3)"

datatype AdjustKey = SpotlightWidth | SpotlightHeight | BlurIntensity

fun getKey :: "AdjustKey \<Rightarrow> PrivacyScreenSettings \<Rightarrow> real" where
  "getKey SpotlightWidth s = spotlightWidth s"
| "getKey SpotlightHeight s = spotlightHeight s"
| "getKey BlurIntensity s = blurIntensity s"

fun setKey :: "AdjustKey \<Rightarrow> real \<Rightarrow> PrivacyScreenSettings \<Rightarrow> PrivacyScreenSettings" where
  "setKey SpotlightWidth v s = s\<lparr>spotlightWidth := v\<rparr>"
| "setKey SpotlightHeight v s = s\<lparr>spotlightHeight := v\<rparr>"
| "setKey BlurIntensity v s = s\<lparr>blurIntensity := v\<rparr>"

definition adjustSetting :: "AdjustKey \<Rightarrow> real \<Rightarrow> real \<Rightarrow> real \<Rightarrow> Plugin \<Rightarrow> Plugin" where
  "adjustSetting key delta mn mx st =
     (let newValue = max mn (min mx (getKey key (settings st) + delta))
      in saveSettings (st\<lparr>settings := setKey key newValue (settings st)\<rparr>))"

definition adjustOffset :: "real \<Rightarrow> Plugin \<Rightarrow> Plugin" where
  "adjustOffset delta st =
     (let maxOffset = of_int \<lfloor>spotlightWidth (settings st) / 2\<rfloor> - 5;
          newValue = max (- maxOffset) (min maxOffset (horizontalOffset (settings st) + delta))
      in saveSettings (st\<lparr>settings := (settings st)\<lparr>horizontalOffset := newValue\<rparr>\<rparr>))"

definition resetSettings :: "Plugin \<Rightarrow> Plugin" where
  "resetSettings st = saveSettings (st\<lparr>settings := DEFAULT_SETTINGS\<rparr>)"

definition toggleTrackingMode :: "Plugin \<Rightarrow> Plugin" where
  "toggleTrackingMode st =
     saveSettings
       (st\<lparr>settings := (settings st)
              \<lparr>trackingMode := (if trackingMode (settings st) = Cursor then Mouse else Cursor)\<rparr>\<rparr>)"

definition pauseOverlay :: "Plugin \<Rightarrow> Plugin" where
  "pauseOverlay st =
     (let st1 = st\<lparr>wasActiveBeforePause := isActive st\<rparr>
      in if isActive st1 then (removeOverlay st1)\<lparr>isActive := False\<rparr> else st1)"

definition resumeOverlay :: "Plugin \<Rightarrow> Plugin" where
  "resumeOverlay st =
     (if wasActiveBeforePause st \<and> \<not> isActive st
      then (createOverlay st)\<lparr>isActive := True\<rparr>
      else st)"

text \<open>The \<^verbatim>\<open>mousemove\<close> handler registered in \<^verbatim>\<open>onload\<close>.\<close>

definition onMouseMove :: "real \<Rightarrow> real \<Rightarrow> Plugin \<Rightarrow> Plugin" where
  "onMouseMove clientX clientY st =
     (if isActive st \<and> trackingMode (settings st) = Mouse
      then updateSpotlightPosition clientX clientY st
      else st)"

definition onunload :: "Plugin \<Rightarrow> Plugin" where
  "onunload st = removeOverlay st"

text \<open>
  \<^verbatim>\<open>onload\<close>, up to the registration of the callbacks: the settings are loaded and, when
  the stored \<^verbatim>\<open>wasActive\<close> is set, the overlay is created. The result is \<open>None\<close> when
  the loaded object cannot be read at the declared type.
\<close>

definition onload :: "App \<Rightarrow> jsobj option \<Rightarrow> Plugin option" where
  "onload a data =
     (case readSettings (loadSettings data) of
        None \<Rightarrow> None
      | Some s \<Rightarrow>
          (let st = \<lparr> app = a, settings = s, overlayEl = None, isActive = False,
                      wasActiveBeforePause = False, currentX = 0, currentY = 0,
                      elements = [], savedData = None \<rparr>
           in Some (if wasActive s then (createOverlay st)\<lparr>isActive := True\<rparr> else st)))"

subsection \<open>The settings tab\<close>

text \<open>
  \<^verbatim>\<open>display\<close> pauses the overlay and rebuilds the widgets; \<^verbatim>\<open>hide\<close> resumes it.
  The widgets and the preview are not part of the model. Each \<^verbatim>\<open>onChange\<close> callback
  is a function of the value the widget passes.
\<close>

definition display :: "Plugin \<Rightarrow> Plugin" where
  "display st = pauseOverlay st"

definition hide :: "Plugin \<Rightarrow> Plugin" where
  "hide st = resumeOverlay st"

definition onWidthChange :: "real \<Rightarrow> Plugin \<Rightarrow> Plugin" where
  "onWidthChange v st =
     (let s1 = (settings st)\<lparr>spotlightWidth := v\<rparr>;
          maxOffset = of_int \<lfloor>v / 2\<rfloor> - 5;
          s2 = (if horizontalOffset s1 > maxOffset then s1\<lparr>horizontalOffset := maxOffset\<rparr>
                else if horizontalOffset s1 < - maxOffset then s1\<lparr>horizontalOffset := - maxOffset\<rparr>
                else s1)
      in display (saveSettings (st\<lparr>settings := s2\<rparr>)))"

definition onOffsetChange :: "real \<Rightarrow> Plugin \<Rightarrow> Plugin" where
  "onOffsetChange v st = saveSettings (st\<lparr>settings := (settings st)\<lparr>horizontalOffset := v\<rparr>\<rparr>)"

definition onHeightChange :: "real \<Rightarrow> Plugin \<Rightarrow> Plugin" where
  "onHeightChange v st = saveSettings (st\<lparr>settings := (settings st)\<lparr>spotlightHeight := v\<rparr>\<rparr>)"

definition onBlurChange :: "real \<Rightarrow> Plugin \<Rightarrow> Plugin" where
  "onBlurChange v st = saveSettings (st\<lparr>settings := (settings st)\<lparr>blurIntensity := v\<rparr>\<rparr>)"

definition onFeatherChange :: "real \<Rightarrow> Plugin \<Rightarrow> Plugin" where
  "onFeatherChange v st = saveSettings (st\<lparr>settings := (settings st)\<lparr>featherEdge := v\<rparr>\<rparr>)"

definition onShapeChange :: "SpotlightShape \<Rightarrow> Plugin \<Rightarrow> Plugin" where
  "onShapeChange v st =
     display (saveSettings (st\<lparr>settings := (settings st)\<lparr>spotlightShape := v\<rparr>\<rparr>))"

definition onRoundnessChange :: "real \<Rightarrow> Plugin \<Rightarrow> Plugin" where
  "onRoundnessChange v st = saveSettings (st\<lparr>settings := (settings st)\<lparr>squareRoundness := v\<rparr>\<rparr>)"

definition onTrackingModeChange :: "TrackingMode \<Rightarrow> Plugin \<Rightarrow> Plugin" where
  "onTrackingModeChange v st = saveSettings (st\<lparr>settings := (settings st)\<lparr>trackingMode := v\<rparr>\<rparr>)"

definition onCursorBlinkChange :: "bool \<Rightarrow> Plugin \<Rightarrow> Plugin" where
  "onCursorBlinkChange v st =
     display (saveSettings (st\<lparr>settings := (settings st)\<lparr>previewCursorBlink := v\<rparr>\<rparr>))"

subsection \<open>Events\<close>

text \<open>
  Everything that can happen to a loaded plugin: the ribbon icon and the commands
  registered in \<^verbatim>\<open>onload\<close> (with the arguments written there), the three DOM and
  workspace events that call \<^verbatim>\<open>trackCursor\<close>, pointer movement, the settings tab being
  shown and hidden, its widgets changing, and the host moving to another editor state.
\<close>

datatype Command =
    CmdToggle
  | IncreaseWidth | DecreaseWidth
  | IncreaseHeight | DecreaseHeight
  | IncreaseBlur | DecreaseBlur
  | IncreaseOffset | DecreaseOffset
  | ResetSettings
  | ToggleTrackingMode

fun runCommand :: "Command \<Rightarrow> Plugin \<Rightarrow> Plugin" where
  "runCommand CmdToggle st = toggle st"
| "runCommand IncreaseWidth st = adjustSetting SpotlightWidth 10 24 600 st"
| "runCommand DecreaseWidth st = adjustSetting SpotlightWidth (- 10) 24 600 st"
| "runCommand IncreaseHeight st = adjustSetting SpotlightHeight 10 24 600 st"
| "runCommand DecreaseHeight st = adjustSetting SpotlightHeight (- 10) 24 600 st"
| "runCommand IncreaseBlur st = adjustSetting BlurIntensity 1 2 20 st"
| "runCommand DecreaseBlur st = adjustSetting BlurIntensity (- 1) 2 20 st"
| "runCommand IncreaseOffset st = adjustOffset 5 st"
| "runCommand DecreaseOffset st = adjustOffset (- 5) st"
| "runCommand ResetSettings st = resetSettings st"
| "runCommand ToggleTrackingMode st = toggleTrackingMode st"

datatype Event =
    RibbonClick
  | Cmd Command
  | KeyUp | Click | ActiveLeafChange
  | MouseMove real real
  | TabDisplay | TabHide
  | WidthSlider real | OffsetSlider real | HeightSlider real | BlurSlider real
  | FeatherSlider real | ShapeDropdown SpotlightShape | RoundnessSlider real
  | TrackingDropdown TrackingMode | CursorBlinkToggle bool
  | HostChange App

fun step :: "Event \<Rightarrow> Plugin \<Rightarrow> Plugin" where
  "step RibbonClick st = toggle st"
| "step (Cmd c) st = runCommand c st"
| "step KeyUp st = trackCursor st"
| "step Click st = trackCursor st"
| "step ActiveLeafChange st = trackCursor st"
| "step (MouseMove x y) st = onMouseMove x y st"
| "step TabDisplay st = display st"
| "step TabHide st = hide st"
| "step (WidthSlider v) st = onWidthChange v st"
| "step (OffsetSlider v) st = onOffsetChange v st"
| "step (HeightSlider v) st = onHeightChange v st"
| "step (BlurSlider v) st = onBlurChange v st"
| "step (FeatherSlider v) st = onFeatherChange v st"
| "step (ShapeDropdown v) st = onShapeChange v st"
| "step (RoundnessSlider v) st = onRoundnessChange v st"
| "step (TrackingDropdown v) st = onTrackingModeChange v st"
| "step (CursorBlinkToggle v) st = onCursorBlinkChange v st"
| "step (HostChange a) st = st\<lparr>app := a\<rparr>"

fun run :: "Event list \<Rightarrow> Plugin \<Rightarrow> Plugin" where
  "run [] st = st"
| "run (ev # evs) st = run evs (step ev st)"

subsection \<open>What is observed\<close>

text \<open>
  The mask on the overlay the plugin holds; the references of the elements that are in
  the document; the centres of the two shapes a mask is made of (a gradient is centred
  where it says, a rectangle at its corner plus half its extent); and the bound the
  offset is meant to stay within.
\<close>

definition renderedMask :: "Plugin \<Rightarrow> Mask option" where
  "renderedMask st =
     (case overlayEl st of
        None \<Rightarrow> None
      | Some e \<Rightarrow> if e < length (elements st) then maskImage (elements st ! e) else None)"

definition attachedIds :: "Plugin \<Rightarrow> nat list" where
  "attachedIds st = filter (\<lambda>i. attached (elements st ! i)) [0..<length (elements st)]"

fun maskCentres :: "Mask \<Rightarrow> (real \<times> real) list" where
  "maskCentres (RadialGradients inner outer) =
     [(ell_x inner, ell_y inner), (ell_x outer, ell_y outer)]"
| "maskCentres (SvgMask outer inner) =
     [(rect_x inner + rect_width inner / 2, rect_y inner + rect_height inner / 2),
      (rect_x outer + rect_width outer / 2, rect_y outer + rect_height outer / 2)]"

definition maxOffsetOf :: "PrivacyScreenSettings \<Rightarrow> real" where
  "maxOffsetOf s = of_int \<lfloor>spotlightWidth s / 2\<rfloor> - 5"

definition offsetWithinBound :: "PrivacyScreenSettings \<Rightarrow> bool" where
  "offsetWithinBound s = (\<bar>horizontalOffset s\<bar> \<le> maxOffsetOf s)"

definition lifecycleInv :: "Plugin \<Rightarrow> bool" where
  "lifecycleInv st =
     ((overlayEl st \<noteq> None) = isActive st \<and>
      attachedIds st = (case overlayEl st of None \<Rightarrow> [] | Some e \<Rightarrow> [e]))"

definition noCursorTarget :: "App \<Rightarrow> bool" where
  "noCursorTarget a =
     (case getActiveViewOfType a of
        None \<Rightarrow> True
      | Some view \<Rightarrow>
          (case cm view of
             None \<Rightarrow> True
           | Some editorView \<Rightarrow> coordsAtPos editorView = None))"

subsection \<open>Concrete hosts and plugin states\<close>

definition caretApp :: App where
  "caretApp =
     \<lparr> getActiveViewOfType =
         Some \<lparr> cm = Some \<lparr> coordsAtPos =
           Some \<lparr> c_left = 120, c_right = 121, c_top = 300, c_bottom = 320 \<rparr> \<rparr> \<rparr> \<rparr>"

definition noViewApp :: App where
  "noViewApp = \<lparr> getActiveViewOfType = None \<rparr>"

definition exampleActive :: Plugin where
  "exampleActive =
     \<lparr> app = caretApp,
       settings = DEFAULT_SETTINGS\<lparr>horizontalOffset := 10, trackingMode := Mouse\<rparr>,
       overlayEl = Some 0, isActive = True, wasActiveBeforePause = False,
       currentX = 0, currentY = 0,
       elements = [\<lparr>attached = True, blurProperty = Some 8, maskImage = None\<rparr>],
       savedData = None \<rparr>"

definition exampleSquare :: Plugin where
  "exampleSquare =
     exampleActive\<lparr>settings := DEFAULT_SETTINGS
       \<lparr>horizontalOffset := 10, spotlightShape := Square, squareRoundness := 100\<rparr>\<rparr>"

definition restoredExample :: Plugin where
  "restoredExample =
     \<lparr> app = caretApp,
       settings = DEFAULT_SETTINGS\<lparr>wasActive := True\<rparr>,
       overlayEl = Some 0, isActive = True, wasActiveBeforePause = False,
       currentX = 0, currentY = 0,
       elements =
         [\<lparr> attached = True, blurProperty = Some 8,
            maskImage = Some (RadialGradients
              \<lparr>ell_rx = 100, ell_ry = 50, ell_x = 0, ell_y = 0\<rparr>
              \<lparr>ell_rx = 150, ell_ry = 100, ell_x = 0, ell_y = 0\<rparr>) \<rparr>],
       savedData = None \<rparr>"

definition freshExample :: Plugin where
  "freshExample =
     \<lparr> app = noViewApp, settings = DEFAULT_SETTINGS, overlayEl = None, isActive = False,
       wasActiveBeforePause = False, currentX = 0, currentY = 0,
       elements = [], savedData = None \<rparr>"

text \<open>What the offset bound is about: the width, the offset and whether the bound holds.\<close>

definition observedOffset :: "Plugin \<Rightarrow> real \<times> real \<times> bool" where
  "observedOffset st =
     (spotlightWidth (settings st), horizontalOffset (settings st),
      offsetWithinBound (settings st))"

section \<open>Frame lemmas\<close>

text \<open>Writing a style, the mask or the blur touches nothing but the element list.\<close>

lemma setStyle_fields [simp]:
  "app (setStyle e f st) = app st"
  "settings (setStyle e f st) = settings st"
  "overlayEl (setStyle e f st) = overlayEl st"
  "isActive (setStyle e f st) = isActive st"
  "wasActiveBeforePause (setStyle e f st) = wasActiveBeforePause st"
  "currentX (setStyle e f st) = currentX st"
  "currentY (setStyle e f st) = currentY st"
  "savedData (setStyle e f st) = savedData st"
  "length (elements (setStyle e f st)) = length (elements st)"
  by (simp_all add: setStyle_def)

lemma updateMask_fields [simp]:
  "app (updateMask st) = app st"
  "settings (updateMask st) = settings st"
  "overlayEl (updateMask st) = overlayEl st"
  "isActive (updateMask st) = isActive st"
  "wasActiveBeforePause (updateMask st) = wasActiveBeforePause st"
  "currentX (updateMask st) = currentX st"
  "currentY (updateMask st) = currentY st"
  "savedData (updateMask st) = savedData st"
  "length (elements (updateMask st)) = length (elements st)"
  by (simp_all add: updateMask_def Let_def split: option.split)

lemma applySettings_fields [simp]:
  "app (applySettings st) = app st"
  "settings (applySettings st) = settings st"
  "overlayEl (applySettings st) = overlayEl st"
  "isActive (applySettings st) = isActive st"
  "wasActiveBeforePause (applySettings st) = wasActiveBeforePause st"
  "currentX (applySettings st) = currentX st"
  "currentY (applySettings st) = currentY st"
  "savedData (applySettings st) = savedData st"
  "length (elements (applySettings st)) = length (elements st)"
  by (simp_all add: applySettings_def split: option.split)

lemma saveSettings_fields [simp]:
  "app (saveSettings st) = app st"
  "settings (saveSettings st) = settings st"
  "overlayEl (saveSettings st) = overlayEl st"
  "isActive (saveSettings st) = isActive st"
  "wasActiveBeforePause (saveSettings st) = wasActiveBeforePause st"
  "currentX (saveSettings st) = currentX st"
  "currentY (saveSettings st) = currentY st"
  "savedData (saveSettings st) = Some (settings st)"
  "length (elements (saveSettings st)) = length (elements st)"
  by (simp_all add: saveSettings_def)

lemma renderedMask_setMask:
  "overlayEl st = Some e \<Longrightarrow> e < length (elements st) \<Longrightarrow>
   renderedMask (setStyle e (\<lambda>el. el\<lparr>maskImage := Some m\<rparr>) st) = Some m"
  by (simp add: renderedMask_def setStyle_def)

lemma readSettings_settingsObject: "readSettings (settingsObject s) = Some s"
  by (cases "spotlightShape s"; cases "trackingMode s")
     (simp_all add: readSettings_def settingsObject_def)

lemma loadSettings_settingsObject: "loadSettings (Some (settingsObject s)) = settingsObject s"
  by (rule ext) (simp add: loadSettings_def settingsObject_def assignFrom_def)

text \<open>The definitions a concrete run unfolds.\<close>

lemmas eval_defs =
  toggle_def display_def hide_def pauseOverlay_def resumeOverlay_def
  createOverlay_def removeOverlay_def saveSettings_def applySettings_def updateMask_def
  setStyle_def trackCursor_def updateSpotlightPosition_def Let_def
  adjustOffset_def adjustSetting_def onWidthChange_def

lemma onload_fresh: "onload noViewApp None = Some freshExample"
  by (simp add: onload_def loadSettings_def assignFrom_def readSettings_def settingsObject_def
      DEFAULT_SETTINGS_def freshExample_def)

lemma onload_restored:
  "onload caretApp (Some [''wasActive'' \<mapsto> JBool True]) = Some restoredExample"
  by (simp add: onload_def loadSettings_def assignFrom_def readSettings_def settingsObject_def
      DEFAULT_SETTINGS_def restoredExample_def eval_defs caretApp_def)

section \<open>Which elements are in the document\<close>

lemma attachedIds_setStyle:
  "(\<And>el. attached (f el) = attached el) \<Longrightarrow> attachedIds (setStyle e f st) = attachedIds st"
  by (auto simp: attachedIds_def setStyle_def nth_list_update intro!: filter_cong)

lemma attachedIds_updateMask [simp]: "attachedIds (updateMask st) = attachedIds st"
  by (simp add: updateMask_def Let_def attachedIds_setStyle split: option.split)

lemma attachedIds_applySettings [simp]: "attachedIds (applySettings st) = attachedIds st"
  by (simp add: applySettings_def attachedIds_setStyle split: option.split)

lemma attachedIds_frame [simp]:
  "attachedIds (st\<lparr>settings := s\<rparr>) = attachedIds st"
  "attachedIds (st\<lparr>isActive := b\<rparr>) = attachedIds st"
  "attachedIds (st\<lparr>wasActiveBeforePause := b\<rparr>) = attachedIds st"
  "attachedIds (st\<lparr>app := a\<rparr>) = attachedIds st"
  "attachedIds (st\<lparr>overlayEl := r\<rparr>) = attachedIds st"
  "attachedIds (st\<lparr>currentX := x\<rparr>) = attachedIds st"
  "attachedIds (st\<lparr>currentY := y\<rparr>) = attachedIds st"
  "attachedIds (st\<lparr>savedData := d\<rparr>) = attachedIds st"
  by (simp_all add: attachedIds_def)

lemma attachedIds_saveSettings [simp]: "attachedIds (saveSettings st) = attachedIds st"
  by (simp add: saveSettings_def)

lemma attachedIds_no_elements: "elements st = [] \<Longrightarrow> attachedIds st = []"
  by (simp add: attachedIds_def)

lemma updateSpotlightPosition_fields [simp]:
  "app (updateSpotlightPosition x y st) = app st"
  "settings (updateSpotlightPosition x y st) = settings st"
  "overlayEl (updateSpotlightPosition x y st) = overlayEl st"
  "isActive (updateSpotlightPosition x y st) = isActive st"
  "wasActiveBeforePause (updateSpotlightPosition x y st) = wasActiveBeforePause st"
  "savedData (updateSpotlightPosition x y st) = savedData st"
  "length (elements (updateSpotlightPosition x y st)) = length (elements st)"
  "attachedIds (updateSpotlightPosition x y st) = attachedIds st"
  by (simp_all add: updateSpotlightPosition_def)

lemma trackCursor_fields [simp]:
  "app (trackCursor st) = app st"
  "settings (trackCursor st) = settings st"
  "overlayEl (trackCursor st) = overlayEl st"
  "isActive (trackCursor st) = isActive st"
  "wasActiveBeforePause (trackCursor st) = wasActiveBeforePause st"
  "savedData (trackCursor st) = savedData st"
  "length (elements (trackCursor st)) = length (elements st)"
  "attachedIds (trackCursor st) = attachedIds st"
  by (simp_all add: trackCursor_def Let_def split: option.split)

lemma createOverlay_fields [simp]:
  "app (createOverlay st) = app st"
  "settings (createOverlay st) = settings st"
  "overlayEl (createOverlay st) = Some (length (elements st))"
  "isActive (createOverlay st) = isActive st"
  "wasActiveBeforePause (createOverlay st) = wasActiveBeforePause st"
  "savedData (createOverlay st) = savedData st"
  "length (elements (createOverlay st)) = Suc (length (elements st))"
  by (simp_all add: createOverlay_def Let_def)

lemma attachedIds_createOverlay [simp]:
  "attachedIds (createOverlay st) = attachedIds st @ [length (elements st)]"
proof -
  have "attachedIds (createOverlay st) =
        attachedIds (st\<lparr> elements :=
                      elements st @ [\<lparr>attached = True, blurProperty = None, maskImage = None\<rparr>],
                    overlayEl := Some (length (elements st)) \<rparr>)"
    by (simp add: createOverlay_def Let_def)
  also have "\<dots> = attachedIds st @ [length (elements st)]"
    by (auto simp: attachedIds_def nth_append intro!: filter_cong)
  finally show ?thesis .
qed

lemma removeOverlay_fields [simp]:
  "app (removeOverlay st) = app st"
  "settings (removeOverlay st) = settings st"
  "overlayEl (removeOverlay st) = None"
  "isActive (removeOverlay st) = isActive st"
  "wasActiveBeforePause (removeOverlay st) = wasActiveBeforePause st"
  "savedData (removeOverlay st) = savedData st"
  "length (elements (removeOverlay st)) = length (elements st)"
  by (simp_all add: removeOverlay_def split: option.split)

lemma attachedIds_removeOverlay:
  assumes "attachedIds st = (case overlayEl st of None \<Rightarrow> [] | Some e \<Rightarrow> [e])"
  shows "attachedIds (removeOverlay st) = []"
proof (cases "overlayEl st")
  case None
  with assms show ?thesis by (simp add: removeOverlay_def)
next
  case (Some e)
  with assms have only: "attachedIds st = [e]" by simp
  have "e \<in> set (attachedIds st)" using only by simp
  then have len: "e < length (elements st)" by (simp add: attachedIds_def)
  have others: "\<not> attached (elements st ! i)" if "i < length (elements st)" "i \<noteq> e" for i
  proof
    assume "attached (elements st ! i)"
    with that have "i \<in> set (attachedIds st)" by (simp add: attachedIds_def)
    with only that show False by simp
  qed
  show ?thesis
    using Some len others
    by (auto simp: removeOverlay_def setStyle_def attachedIds_def filter_empty_conv
        nth_list_update)
qed

lemma lifecycleInv_toggle: "lifecycleInv st \<Longrightarrow> lifecycleInv (toggle st)"
  by (cases "isActive st")
     (auto simp: lifecycleInv_def toggle_def Let_def attachedIds_removeOverlay
        split: option.splits)

lemma lifecycleInv_pauseOverlay: "lifecycleInv st \<Longrightarrow> lifecycleInv (pauseOverlay st)"
  by (cases "isActive st")
     (auto simp: lifecycleInv_def pauseOverlay_def Let_def attachedIds_removeOverlay
        split: option.splits)

lemma lifecycleInv_resumeOverlay: "lifecycleInv st \<Longrightarrow> lifecycleInv (resumeOverlay st)"
  by (auto simp: lifecycleInv_def resumeOverlay_def split: option.splits)

lemma lifecycleInv_saveSettings:
  "lifecycleInv st \<Longrightarrow> lifecycleInv (saveSettings (st\<lparr>settings := s\<rparr>))"
  by (simp add: lifecycleInv_def)

lemma lifecycleInv_trackCursor: "lifecycleInv st \<Longrightarrow> lifecycleInv (trackCursor st)"
  by (simp add: lifecycleInv_def)

lemma lifecycleInv_onMouseMove: "lifecycleInv st \<Longrightarrow> lifecycleInv (onMouseMove x y st)"
  by (simp add: lifecycleInv_def onMouseMove_def)

lemma lifecycleInv_runCommand: "lifecycleInv st \<Longrightarrow> lifecycleInv (runCommand c st)"
  by (cases c)
     (simp_all add: lifecycleInv_toggle lifecycleInv_saveSettings adjustSetting_def Let_def
        adjustOffset_def resetSettings_def toggleTrackingMode_def)

lemma lifecycleInv_step: "lifecycleInv st \<Longrightarrow> lifecycleInv (step ev st)"
proof (cases ev)
  case (HostChange a)
  assume "lifecycleInv st"
  then show ?thesis using HostChange by (simp add: lifecycleInv_def)
next
  case (WidthSlider v)
  assume "lifecycleInv st"
  then show ?thesis using WidthSlider
    by (simp add: onWidthChange_def Let_def display_def lifecycleInv_pauseOverlay
        lifecycleInv_saveSettings)
qed (simp_all add: lifecycleInv_toggle lifecycleInv_runCommand lifecycleInv_trackCursor
      lifecycleInv_onMouseMove display_def hide_def lifecycleInv_pauseOverlay
      lifecycleInv_resumeOverlay lifecycleInv_saveSettings onOffsetChange_def
      onHeightChange_def onBlurChange_def onFeatherChange_def onShapeChange_def
      onRoundnessChange_def onTrackingModeChange_def onCursorBlinkChange_def)

lemma lifecycleInv_run: "lifecycleInv st \<Longrightarrow> lifecycleInv (run evs st)"
  by (induction evs arbitrary: st) (simp_all add: lifecycleInv_step)

lemma lifecycleInv_onload: "onload a data = Some st \<Longrightarrow> lifecycleInv st"
  by (auto simp: onload_def Let_def lifecycleInv_def attachedIds_no_elements
      split: option.splits if_splits)

section \<open>Mask synthesis\<close>

text \<open>
  C5. With the circle shape, positioning the spotlight at \<open>(x, y)\<close> writes a mask of two
  gradients: the inner ellipse has radii (width / 2, height / 2), the outer one the same
  radii plus the feather on each axis, and both are centred at (x + offset, y).
\<close>

theorem circle_mask_geometry:
  assumes "overlayEl st = Some e" and "e < length (elements st)"
    and "spotlightShape (settings st) = Circle"
  shows "renderedMask (updateSpotlightPosition x y st) =
           Some (RadialGradients
                  \<lparr> ell_rx = spotlightWidth (settings st) / 2,
                    ell_ry = spotlightHeight (settings st) / 2,
                    ell_x = x + horizontalOffset (settings st),
                    ell_y = y \<rparr>
                  \<lparr> ell_rx = spotlightWidth (settings st) / 2 + featherEdge (settings st),
                    ell_ry = spotlightHeight (settings st) / 2 + featherEdge (settings st),
                    ell_x = x + horizontalOffset (settings st),
                    ell_y = y \<rparr>)"
  using assms
  by (simp add: updateSpotlightPosition_def updateMask_def Let_def renderedMask_setMask)

theorem circle_mask_geometry_witness:
  "overlayEl exampleActive = Some 0 \<and> 0 < length (elements exampleActive) \<and>
   spotlightShape (settings exampleActive) = Circle \<and>
   renderedMask (updateSpotlightPosition 100 50 exampleActive) =
     Some (RadialGradients \<lparr>ell_rx = 100, ell_ry = 50, ell_x = 110, ell_y = 50\<rparr>
                           \<lparr>ell_rx = 150, ell_ry = 100, ell_x = 110, ell_y = 50\<rparr>)"
  using circle_mask_geometry [of exampleActive 0 100 50]
  by (simp add: exampleActive_def DEFAULT_SETTINGS_def)

text \<open>
  C6. With the square shape, the mask is two rectangles: the inner one is width by height,
  centred at (x + offset, y), with corner radius (roundness / 100) * min(width, height) / 2;
  the outer one reaches the feather further on all four sides and has the inner corner
  radius plus the feather. At roundness 100 the inner corner radius is
  min(width, height) / 2.
\<close>

theorem square_mask_geometry:
  assumes "overlayEl st = Some e" and "e < length (elements st)"
    and "spotlightShape (settings st) = Square"
  shows "\<exists>outer inner.
           renderedMask (updateSpotlightPosition x y st) = Some (SvgMask outer inner) \<and>
           rect_rx inner =
             (squareRoundness (settings st) / 100) *
               (min (spotlightWidth (settings st)) (spotlightHeight (settings st)) / 2) \<and>
           rect_rx outer = rect_rx inner + featherEdge (settings st) \<and>
           rect_width inner = spotlightWidth (settings st) \<and>
           rect_height inner = spotlightHeight (settings st) \<and>
           rect_x inner + rect_width inner / 2 = x + horizontalOffset (settings st) \<and>
           rect_y inner + rect_height inner / 2 = y \<and>
           rect_x outer = rect_x inner - featherEdge (settings st) \<and>
           rect_y outer = rect_y inner - featherEdge (settings st) \<and>
           rect_x outer + rect_width outer = rect_x inner + rect_width inner + featherEdge (settings st) \<and>
           rect_y outer + rect_height outer = rect_y inner + rect_height inner + featherEdge (settings st) \<and>
           (squareRoundness (settings st) = 100 \<longrightarrow>
              rect_rx inner = min (spotlightWidth (settings st)) (spotlightHeight (settings st)) / 2)"
proof -
  have halves: "min (spotlightWidth (settings st) / 2) (spotlightHeight (settings st) / 2) =
          min (spotlightWidth (settings st)) (spotlightHeight (settings st)) / 2"
    by (simp add: min_def)
  show ?thesis
    using assms
    by (simp add: updateSpotlightPosition_def updateMask_def Let_def renderedMask_setMask
        createSquareMask_def halves)
qed

theorem square_mask_geometry_witness:
  "overlayEl exampleSquare = Some 0 \<and> 0 < length (elements exampleSquare) \<and>
   spotlightShape (settings exampleSquare) = Square \<and>
   squareRoundness (settings exampleSquare) = 100 \<and>
   (\<exists>outer inner.
      renderedMask (updateSpotlightPosition 100 50 exampleSquare) = Some (SvgMask outer inner) \<and>
      rect_rx inner = 50 \<and> rect_rx outer = 100 \<and>
      rect_width inner = 200 \<and> rect_height inner = 100 \<and>
      rect_x inner = 10 \<and> rect_y inner = 0 \<and>
      rect_x outer = - 40 \<and> rect_y outer = - 50)"
  using square_mask_geometry [of exampleSquare 0 100 50]
  by (auto simp add: exampleSquare_def exampleActive_def DEFAULT_SETTINGS_def)

section \<open>Position tracking\<close>

text \<open>
  C2, as amended. The horizontal offset is added in \<^verbatim>\<open>updateMask\<close>, on both tracking
  paths: while the plugin is active with its overlay, a pointer event at (px, py) in
  mouse mode centres the mask at (px + offset, py), and a cursor-tracking event that
  finds the caret centres it at (caret left + offset, (top + bottom) / 2).
\<close>

theorem tracking_mask_centre:
  assumes "isActive st" and "overlayEl st = Some e" and "e < length (elements st)"
  shows "(trackingMode (settings st) = Mouse \<longrightarrow>
            map_option maskCentres (renderedMask (onMouseMove px py st)) =
              Some [(px + horizontalOffset (settings st), py),
                    (px + horizontalOffset (settings st), py)]) \<and>
         (getActiveViewOfType (app st) = Some view \<and> cm view = Some editorView \<and>
          coordsAtPos editorView = Some coords \<longrightarrow>
            map_option maskCentres (renderedMask (trackCursor st)) =
              Some [(c_left coords + horizontalOffset (settings st),
                     (c_top coords + c_bottom coords) / 2),
                    (c_left coords + horizontalOffset (settings st),
                     (c_top coords + c_bottom coords) / 2)])"
proof -
  have centre: "map_option maskCentres (renderedMask (updateSpotlightPosition a b st)) =
      Some [(a + horizontalOffset (settings st), b), (a + horizontalOffset (settings st), b)]"
    for a b
    using assms
    by (cases "spotlightShape (settings st)")
       (simp_all add: updateSpotlightPosition_def updateMask_def Let_def renderedMask_setMask
          createSquareMask_def add_divide_distrib)
  show ?thesis
    using assms by (simp add: onMouseMove_def trackCursor_def Let_def centre)
qed

theorem tracking_mask_centre_witness:
  "isActive exampleActive \<and> overlayEl exampleActive = Some 0 \<and>
   0 < length (elements exampleActive) \<and>
   trackingMode (settings exampleActive) = Mouse \<and>
   getActiveViewOfType (app exampleActive) =
     Some \<lparr> cm = Some \<lparr> coordsAtPos =
       Some \<lparr> c_left = 120, c_right = 121, c_top = 300, c_bottom = 320 \<rparr> \<rparr> \<rparr> \<and>
   map_option maskCentres (renderedMask (onMouseMove 100 50 exampleActive)) =
     Some [(110, 50), (110, 50)] \<and>
   map_option maskCentres (renderedMask (trackCursor exampleActive)) =
     Some [(130, 310), (130, 310)]"
  using tracking_mask_centre [of exampleActive 0 100 50
      "\<lparr> cm = Some \<lparr> coordsAtPos =
         Some \<lparr> c_left = 120, c_right = 121, c_top = 300, c_bottom = 320 \<rparr> \<rparr> \<rparr>"
      "\<lparr> coordsAtPos = Some \<lparr> c_left = 120, c_right = 121, c_top = 300, c_bottom = 320 \<rparr> \<rparr>"
      "\<lparr> c_left = 120, c_right = 121, c_top = 300, c_bottom = 320 \<rparr>"]
  by (simp add: exampleActive_def caretApp_def DEFAULT_SETTINGS_def)

text \<open>
  C2, as stated, fails: in mouse mode with offset 10, a pointer event at (100, 50)
  centres the mask at (110, 50), not at (100, 50).
\<close>

theorem mouse_mask_centre_counterexample:
  "isActive exampleActive \<and> trackingMode (settings exampleActive) = Mouse \<and>
   horizontalOffset (settings exampleActive) = 10 \<and>
   map_option maskCentres (renderedMask (onMouseMove 100 50 exampleActive)) =
     Some [(110, 50), (110, 50)] \<and>
   map_option maskCentres (renderedMask (onMouseMove 100 50 exampleActive)) \<noteq>
     Some [(100, 50), (100, 50)]"
  by (simp add: exampleActive_def DEFAULT_SETTINGS_def onMouseMove_def
      updateSpotlightPosition_def updateMask_def Let_def renderedMask_def setStyle_def)

text \<open>
  C8. When there is no active markdown view, no editor view or no caret coordinates,
  \<^verbatim>\<open>trackCursor\<close> returns the plugin as it was: the stored position and the mask on the
  overlay are unchanged.
\<close>

theorem trackCursor_no_target:
  assumes "noCursorTarget (app st)"
  shows "trackCursor st = st \<and>
         currentX (trackCursor st) = currentX st \<and>
         currentY (trackCursor st) = currentY st \<and>
         renderedMask (trackCursor st) = renderedMask st"
proof -
  have "trackCursor st = st"
    using assms by (simp add: trackCursor_def noCursorTarget_def split: option.splits)
  then show ?thesis by simp
qed

theorem trackCursor_no_target_witness:
  "noCursorTarget (app (exampleActive\<lparr>app := noViewApp\<rparr>)) \<and>
   isActive (exampleActive\<lparr>app := noViewApp\<rparr>) \<and>
   trackCursor (exampleActive\<lparr>app := noViewApp\<rparr>) = exampleActive\<lparr>app := noViewApp\<rparr>"
  using trackCursor_no_target [of "exampleActive\<lparr>app := noViewApp\<rparr>"]
  by (simp add: noCursorTarget_def noViewApp_def exampleActive_def)

section \<open>Settings: reset and load\<close>

text \<open>
  C7. \<^verbatim>\<open>resetSettings\<close> sets the settings to the compiled-in defaults and saves them:
  width 200, height 100, offset 0, blur 8, feather 50, shape circle, roundness 20,
  tracking mode cursor.
\<close>

theorem resetSettings_defaults:
  "settings (resetSettings st) = DEFAULT_SETTINGS \<and>
   savedData (resetSettings st) = Some DEFAULT_SETTINGS \<and>
   spotlightWidth (settings (resetSettings st)) = 200 \<and>
   spotlightHeight (settings (resetSettings st)) = 100 \<and>
   horizontalOffset (settings (resetSettings st)) = 0 \<and>
   blurIntensity (settings (resetSettings st)) = 8 \<and>
   featherEdge (settings (resetSettings st)) = 50 \<and>
   spotlightShape (settings (resetSettings st)) = Circle \<and>
   squareRoundness (settings (resetSettings st)) = 20 \<and>
   trackingMode (settings (resetSettings st)) = Cursor"
  by (simp add: resetSettings_def) (simp add: DEFAULT_SETTINGS_def)

text \<open>
  C9, as amended. In the object \<^verbatim>\<open>loadSettings\<close> assigns to \<^verbatim>\<open>this.settings\<close>, a
  key missing from the stored record has its default value, and a key present in the
  stored record, other than \<^verbatim>\<open>__proto__\<close>, has the stored value in place of the default.
  That holds for a stored key that is not one of the declared settings as well: it is in
  the loaded object with its stored value, not dropped. A stored \<^verbatim>\<open>__proto__\<close> alone
  does not become a property of the loaded object. With nothing stored the object is the
  defaults.
\<close>

theorem loadSettings_merge:
  "(data k = None \<longrightarrow> loadSettings (Some data) k = settingsObject DEFAULT_SETTINGS k) \<and>
   (data k = Some v \<and> k \<noteq> ''__proto__'' \<longrightarrow> loadSettings (Some data) k = Some v) \<and>
   (data k = Some v \<and> k \<noteq> ''__proto__'' \<and> settingsObject DEFAULT_SETTINGS k = None \<longrightarrow>
      loadSettings (Some data) k = Some v) \<and>
   loadSettings (Some data) ''__proto__'' = None \<and>
   loadSettings None = settingsObject DEFAULT_SETTINGS"
proof -
  have no_proto: "settingsObject DEFAULT_SETTINGS ''__proto__'' = None"
    by (simp add: settingsObject_def)
  have defaults: "assignFrom Map.empty (settingsObject DEFAULT_SETTINGS) =
                  settingsObject DEFAULT_SETTINGS"
    by (rule ext) (simp add: assignFrom_def no_proto split: option.split)
  show ?thesis
    by (simp add: loadSettings_def defaults)
       (simp add: assignFrom_def no_proto split: option.split)
qed

theorem loadSettings_merge_witness:
  "[''spotlightWidth'' \<mapsto> JNum 300, ''spotlightRadius'' \<mapsto> JNum 100, ''__proto__'' \<mapsto> JNum 1]
     ''spotlightHeight'' = None \<and>
   loadSettings
     (Some [''spotlightWidth'' \<mapsto> JNum 300, ''spotlightRadius'' \<mapsto> JNum 100,
            ''__proto__'' \<mapsto> JNum 1])
     ''spotlightHeight'' = Some (JNum 100) \<and>
   [''spotlightWidth'' \<mapsto> JNum 300, ''spotlightRadius'' \<mapsto> JNum 100, ''__proto__'' \<mapsto> JNum 1]
     ''spotlightWidth'' = Some (JNum 300) \<and>
   ''spotlightWidth'' \<noteq> ''__proto__'' \<and>
   loadSettings
     (Some [''spotlightWidth'' \<mapsto> JNum 300, ''spotlightRadius'' \<mapsto> JNum 100,
            ''__proto__'' \<mapsto> JNum 1])
     ''spotlightWidth'' = Some (JNum 300) \<and>
   [''spotlightWidth'' \<mapsto> JNum 300, ''spotlightRadius'' \<mapsto> JNum 100, ''__proto__'' \<mapsto> JNum 1]
     ''spotlightRadius'' = Some (JNum 100) \<and>
   ''spotlightRadius'' \<noteq> ''__proto__'' \<and>
   settingsObject DEFAULT_SETTINGS ''spotlightRadius'' = None \<and>
   loadSettings
     (Some [''spotlightWidth'' \<mapsto> JNum 300, ''spotlightRadius'' \<mapsto> JNum 100,
            ''__proto__'' \<mapsto> JNum 1])
     ''spotlightRadius'' = Some (JNum 100) \<and>
   [''spotlightWidth'' \<mapsto> JNum 300, ''spotlightRadius'' \<mapsto> JNum 100, ''__proto__'' \<mapsto> JNum 1]
     ''__proto__'' = Some (JNum 1) \<and>
   loadSettings
     (Some [''spotlightWidth'' \<mapsto> JNum 300, ''spotlightRadius'' \<mapsto> JNum 100,
            ''__proto__'' \<mapsto> JNum 1])
     ''__proto__'' = None"
  using loadSettings_merge
      [of "[''spotlightWidth'' \<mapsto> JNum 300, ''spotlightRadius'' \<mapsto> JNum 100,
            ''__proto__'' \<mapsto> JNum 1]"
          "''spotlightHeight''"]
    loadSettings_merge
      [of "[''spotlightWidth'' \<mapsto> JNum 300, ''spotlightRadius'' \<mapsto> JNum 100,
            ''__proto__'' \<mapsto> JNum 1]"
          "''spotlightWidth''" "JNum 300"]
    loadSettings_merge
      [of "[''spotlightWidth'' \<mapsto> JNum 300, ''spotlightRadius'' \<mapsto> JNum 100,
            ''__proto__'' \<mapsto> JNum 1]"
          "''spotlightRadius''" "JNum 100"]
  by (simp add: settingsObject_def DEFAULT_SETTINGS_def)

text \<open>
  C9, as stated, fails: a key that is not a declared setting is not dropped. A stored
  \<^verbatim>\<open>spotlightRadius\<close> (the legacy variant's key) is in the loaded object.
\<close>

theorem loadSettings_unknown_key_counterexample:
  "settingsObject DEFAULT_SETTINGS ''spotlightRadius'' = None \<and>
   loadSettings (Some [''spotlightRadius'' \<mapsto> JNum 100]) ''spotlightRadius'' = Some (JNum 100)"
  by (simp add: loadSettings_def assignFrom_def settingsObject_def)

text \<open>
  C10. \<^verbatim>\<open>resetSettings\<close> leaves the lifecycle state alone: \<^verbatim>\<open>isActive\<close>,
  \<^verbatim>\<open>overlayEl\<close>, the stored position, \<^verbatim>\<open>wasActiveBeforePause\<close> and the elements in the
  document are as before. The settings it saves have \<^verbatim>\<open>wasActive\<close> false, whatever
  \<^verbatim>\<open>isActive\<close> is, so loading them at the next start creates no overlay.
\<close>

theorem resetSettings_frame:
  "app (resetSettings st) = app st \<and>
   isActive (resetSettings st) = isActive st \<and>
   overlayEl (resetSettings st) = overlayEl st \<and>
   currentX (resetSettings st) = currentX st \<and>
   currentY (resetSettings st) = currentY st \<and>
   wasActiveBeforePause (resetSettings st) = wasActiveBeforePause st \<and>
   attachedIds (resetSettings st) = attachedIds st \<and>
   wasActive (settings (resetSettings st)) = False \<and>
   map_option wasActive (savedData (resetSettings st)) = Some False \<and>
   (case savedData (resetSettings st) of
      None \<Rightarrow> False
    | Some d \<Rightarrow>
        (case onload a (Some (settingsObject d)) of
           None \<Rightarrow> False
         | Some st' \<Rightarrow> \<not> isActive st' \<and> overlayEl st' = None))"
proof -
  have next_start: "onload a (Some (settingsObject DEFAULT_SETTINGS)) =
      Some \<lparr> app = a, settings = DEFAULT_SETTINGS, overlayEl = None, isActive = False,
             wasActiveBeforePause = False, currentX = 0, currentY = 0,
             elements = [], savedData = None \<rparr>"
    by (simp add: onload_def loadSettings_settingsObject readSettings_settingsObject)
       (simp add: DEFAULT_SETTINGS_def)
  have "wasActive DEFAULT_SETTINGS = False" by (simp add: DEFAULT_SETTINGS_def)
  then show ?thesis
    by (simp add: resetSettings_def next_start)
qed

section \<open>The offset bound\<close>

text \<open>
  The width slider and the offset commands keep the offset within
  \<open>floor (width / 2) - 5\<close> for every width a slider or a command can produce
  (the bound is not negative from width 10 on).
\<close>

lemma onWidthChange_offsetWithinBound:
  assumes "10 \<le> v"
  shows "offsetWithinBound (settings (onWidthChange v st)) \<and>
         spotlightWidth (settings (onWidthChange v st)) = v"
proof -
  have "5 \<le> \<lfloor>v / 2\<rfloor>" using assms by (simp add: le_floor_iff)
  then have "0 \<le> (of_int \<lfloor>v / 2\<rfloor> :: real) - 5" by simp
  then show ?thesis
    by (simp add: onWidthChange_def Let_def display_def pauseOverlay_def
        offsetWithinBound_def maxOffsetOf_def abs_le_iff)
qed

lemma adjustOffset_offsetWithinBound:
  assumes "10 \<le> spotlightWidth (settings st)"
  shows "offsetWithinBound (settings (adjustOffset delta st))"
proof -
  have "5 \<le> \<lfloor>spotlightWidth (settings st) / 2\<rfloor>" using assms by (simp add: le_floor_iff)
  then have "0 \<le> (of_int \<lfloor>spotlightWidth (settings st) / 2\<rfloor> :: real) - 5" by simp
  then show ?thesis
    by (simp add: adjustOffset_def Let_def offsetWithinBound_def maxOffsetOf_def abs_le_iff)
qed

text \<open>
  C1. The width commands go through \<^verbatim>\<open>adjustSetting\<close>, which does not clamp the offset
  again as the width slider does. From the defaults, nineteen increase-offset commands
  give width 200 and offset 95, within the bound 95; one decrease-width command then
  gives width 190 with the offset still 95, above the bound 90. The width slider set to
  190 in the same state gives offset 90.
\<close>

theorem decrease_width_leaves_offset_out_of_bound:
  "onload noViewApp None = Some freshExample \<and>
   observedOffset (run (replicate 19 (Cmd IncreaseOffset)) freshExample) = (200, 95, True) \<and>
   observedOffset (run (replicate 19 (Cmd IncreaseOffset) @ [Cmd DecreaseWidth]) freshExample) =
     (190, 95, False) \<and>
   observedOffset (run (replicate 19 (Cmd IncreaseOffset) @ [WidthSlider 190]) freshExample) =
     (190, 90, True)"
  by (simp add: onload_fresh)
     (simp add: eval_nat_numeral observedOffset_def offsetWithinBound_def maxOffsetOf_def
        freshExample_def eval_defs DEFAULT_SETTINGS_def)

section \<open>The overlay lifecycle\<close>

text \<open>
  C4. In every state reached from a loaded plugin (with or without the overlay restored
  by \<^verbatim>\<open>onload\<close>) by any sequence of events, \<^verbatim>\<open>overlayEl\<close> is set exactly when the
  plugin is active, and the elements in the document are exactly the one \<^verbatim>\<open>overlayEl\<close>
  refers to, or none: at most one overlay exists, none is left behind.
\<close>

theorem overlay_iff_active:
  assumes "onload a data = Some st0"
  shows "lifecycleInv (run evs st0) \<and>
         (overlayEl (run evs st0) \<noteq> None) = isActive (run evs st0) \<and>
         attachedIds (run evs st0) = (case overlayEl (run evs st0) of None \<Rightarrow> [] | Some e \<Rightarrow> [e]) \<and>
         length (attachedIds (run evs st0)) \<le> 1"
proof -
  have inv: "lifecycleInv (run evs st0)"
    using assms by (simp add: lifecycleInv_onload lifecycleInv_run)
  then show ?thesis
    by (auto simp: lifecycleInv_def split: option.splits)
qed

theorem overlay_iff_active_witness:
  "onload caretApp (Some [''wasActive'' \<mapsto> JBool True]) = Some restoredExample \<and>
   lifecycleInv (run [TabDisplay, TabHide, KeyUp, RibbonClick, RibbonClick] restoredExample) \<and>
   length (attachedIds (run [TabDisplay, TabHide, KeyUp, RibbonClick, RibbonClick] restoredExample)) \<le> 1"
  using overlay_iff_active [OF onload_restored, of "[TabDisplay, TabHide, KeyUp, RibbonClick, RibbonClick]"]
    onload_restored
  by blast

text \<open>
  One pause followed by one resume gives back the active flag, and the invariant holds
  after it. A second pause before the resume records that the plugin is inactive, and the
  resume then does nothing.
\<close>

lemma pause_twice_resume_inactive:
  "\<not> isActive (resumeOverlay (pauseOverlay (pauseOverlay st))) \<and>
   overlayEl (resumeOverlay (pauseOverlay (pauseOverlay st))) = overlayEl (pauseOverlay st)"
  by (simp add: pauseOverlay_def resumeOverlay_def Let_def)

lemma pause_resume_restores:
  assumes "lifecycleInv st"
  shows "isActive (resumeOverlay (pauseOverlay st)) = isActive st \<and>
         lifecycleInv (resumeOverlay (pauseOverlay st))"
  using assms lifecycleInv_resumeOverlay [OF lifecycleInv_pauseOverlay [OF assms]]
  by (simp add: pauseOverlay_def resumeOverlay_def Let_def)

text \<open>
  C3. A pause followed by a resume restores an active overlay, but two pauses followed
  by a resume do not: starting active with an overlay, the plugin ends inactive with no
  overlay in the document. The settings tab pauses every time it is drawn, and changing
  the width redraws it, so showing the tab, moving the width slider and hiding the tab is
  such a sequence.
\<close>

theorem pause_twice_resume_loses_overlay:
  "onload caretApp (Some [''wasActive'' \<mapsto> JBool True]) = Some restoredExample \<and>
   isActive restoredExample \<and> overlayEl restoredExample = Some 0 \<and>
   attachedIds restoredExample = [0] \<and>
   isActive (run [TabDisplay, TabHide] restoredExample) \<and>
   overlayEl (run [TabDisplay, TabHide] restoredExample) = Some 1 \<and>
   \<not> isActive (run [TabDisplay, TabDisplay, TabHide] restoredExample) \<and>
   overlayEl (run [TabDisplay, TabDisplay, TabHide] restoredExample) = None \<and>
   attachedIds (run [TabDisplay, TabDisplay, TabHide] restoredExample) = [] \<and>
   \<not> isActive (run [TabDisplay, WidthSlider 204, TabHide] restoredExample) \<and>
   overlayEl (run [TabDisplay, WidthSlider 204, TabHide] restoredExample) = None"
  by (simp add: onload_restored)
     (simp add: restoredExample_def eval_defs attachedIds_def DEFAULT_SETTINGS_def caretApp_def)

end
